theory Spec2Isabelle
  imports Complex_Main
begin

section \<open>Common data\<close>

text \<open>
  The Strife payment system has three tiers: a client (\<^verbatim>\<open>src/client.py\<close>), a gateway that
  coordinates two-phase commit (\<^verbatim>\<open>src/gateway.py\<close>) and bank servers
  (\<^verbatim>\<open>src/bank_server.py\<close>). Each Python method becomes a function that takes the state
  it reads and returns its result together with the state it leaves behind.

  Amounts, balances and clock readings are Python floats. They are modelled as \<open>real\<close>:
  the comparisons and the additions and subtractions of the source are taken exactly, and
  every concrete figure used below (1000, 600, 150, ...) is exactly representable in binary
  floating point, as are the sums and differences computed from it.

  A message built by an f-string is kept as the list of its parts, a number left
  unformatted: \<^verbatim>\<open>f"Insufficient funds. Current balance: {balance}"\<close> is
  \<open>[S ''Insufficient funds. Current balance: '', F balance]\<close>.
\<close>

datatype part = S string | F real

type_synonym fstring = "part list"

section \<open>The bank server\<close>

text \<open>
  \<^verbatim>\<open>BankServicer\<close> keeps its \<^verbatim>\<open>bank_name\<close>, \<^verbatim>\<open>self.users\<close> (a dict from user name to the user's
  data; the methods iterate over it, so it is an association list in insertion order),
  \<^verbatim>\<open>self.transactions\<close> (the ledger, a dict from account id to a list of entries) and
  \<^verbatim>\<open>self.prepared_transactions\<close> (a dict from transaction id to the prepared entry,
  only ever read and written by key). Writing the JSON files (\<^verbatim>\<open>_save_*\<close>) is taken
  to succeed and is not part of the state.
\<close>

record user_data =
  password :: string
  account_id :: string
  name :: string
  balance :: real

record ledger_entry =
  transaction_id :: string
  entry_type :: string
  amount :: real
  counterparty :: string
  timestamp :: real
  entry_status :: string

record tx_details =
  d_account_id :: string
  d_username :: string
  d_type :: string
  d_amount :: real
  d_counterparty :: string
  d_timestamp :: real

record prepared =
  ready :: bool
  message :: fstring
  details :: tx_details

record bank =
  bank_name :: string
  users :: "(string \<times> user_data) list"
  transactions :: "string \<rightharpoonup> ledger_entry list"
  prepared_transactions :: "string \<rightharpoonup> prepared"

text \<open>
  What a bank method reads from outside its state: the clock (\<^verbatim>\<open>time.time()\<close>, and
  \<^verbatim>\<open>time.strftime\<close> for a ledger entry, kept as the same reading) and one draw of
  \<^verbatim>\<open>uuid.uuid4()\<close>.
\<close>

record env =
  env_time :: real
  env_uuid :: string

datatype prepare_request = PrepareTransactionRequest string string string real string

datatype prepare_response = PrepareTransactionResponse (vote: bool) (vote_message: fstring)

datatype commit_response = CommitTransactionResponse (commit_success: bool) (commit_message: fstring)

datatype abort_response = AbortTransactionResponse (abort_success: bool) (abort_message: fstring)

datatype balance_response =
  BankBalanceResponse (balance_success: bool) (balance_value: real) (balance_message: fstring)

text \<open>
  The loop \<^verbatim>\<open>for username, user_data in self.users.items(): if user_data["account_id"] == account_id\<close>:
  the first user, in the dict's order, that owns the account.
\<close>

fun find_account :: "(string \<times> user_data) list \<Rightarrow> string \<Rightarrow> (string \<times> user_data) option" where
  "find_account [] aid = None"
| "find_account ((username, ud) # rest) aid =
     (if account_id ud = aid then Some (username, ud) else find_account rest aid)"

text \<open>\<^verbatim>\<open>self.users[username]["balance"] += delta\<close>, for a user name that is a key.\<close>

definition adjust_balance :: "string \<Rightarrow> real \<Rightarrow> (string \<times> user_data) list \<Rightarrow> (string \<times> user_data) list" where
  "adjust_balance username delta us =
     map (\<lambda>(u, ud). if u = username then (u, ud\<lparr>balance := balance ud + delta\<rparr>) else (u, ud)) us"

text \<open>
  \<^verbatim>\<open>GetBalance\<close> returns its response together with the status code and details it
  has set on the context, if any: for an unknown account it sets \<^verbatim>\<open>NOT_FOUND\<close>. The
  methods of the two-phase commit set no code.
\<close>

definition GetBalance :: "bank \<Rightarrow> string \<Rightarrow> balance_response \<times> (string \<times> string) option" where
  "GetBalance b aid =
     (case find_account (users b) aid of
        Some (username, ud) \<Rightarrow>
          (BankBalanceResponse True (balance ud) [S ''Balance retrieved successfully''], None)
      | None \<Rightarrow>
          (BankBalanceResponse False 0 [S ''Account '', S aid, S '' not found''],
           Some (''NOT_FOUND'', ''Account '' @ aid @ '' not found in bank '' @ bank_name b)))"

definition record_transaction ::
  "env \<Rightarrow> bank \<Rightarrow> string \<Rightarrow> string \<Rightarrow> real \<Rightarrow> string \<Rightarrow> string \<Rightarrow> bank" where
  "record_transaction e b aid transaction_type amt cp tid =
     (let entries = (case transactions b aid of None \<Rightarrow> [] | Some l \<Rightarrow> l);
          transaction = \<lparr>transaction_id = (if tid \<noteq> [] then tid else env_uuid e),
                         entry_type = transaction_type, amount = amt, counterparty = cp,
                         timestamp = env_time e, entry_status = ''completed''\<rparr>
      in b\<lparr>transactions := (transactions b)(aid \<mapsto> entries @ [transaction])\<rparr>)"

definition PrepareTransaction :: "env \<Rightarrow> bank \<Rightarrow> prepare_request \<Rightarrow> prepare_response \<times> bank" where
  "PrepareTransaction e b request =
     (case request of PrepareTransactionRequest tid aid transaction_type amt cp \<Rightarrow>
        (case prepared_transactions b tid of
           Some p \<Rightarrow> (PrepareTransactionResponse (ready p) (message p), b)
         | None \<Rightarrow>
            (case find_account (users b) aid of
               None \<Rightarrow> (PrepareTransactionResponse False [S ''Account '', S aid, S '' not found''], b)
             | Some (account_username, ud) \<Rightarrow>
                 if transaction_type = ''debit'' \<and> balance ud < amt
                 then (PrepareTransactionResponse False
                         [S ''Insufficient funds. Current balance: '', F (balance ud),
                          S '', required: '', F amt], b)
                 else (PrepareTransactionResponse True [S ''Ready to process transaction''],
                       b\<lparr>prepared_transactions := (prepared_transactions b)(tid \<mapsto>
                           \<lparr>ready = True, message = [S ''Ready to process transaction''],
                            details = \<lparr>d_account_id = aid, d_username = account_username,
                                       d_type = transaction_type, d_amount = amt,
                                       d_counterparty = cp, d_timestamp = env_time e\<rparr>\<rparr>)\<rparr>))))"

text \<open>
  \<^verbatim>\<open>CommitTransaction\<close>. The only statement of its \<^verbatim>\<open>try\<close> block that can raise
  is \<^verbatim>\<open>self.users[username]\<close> (a \<^verbatim>\<open>KeyError\<close>, whose text is the quoted key), and it
  raises before anything is changed.
\<close>

definition CommitTransaction :: "env \<Rightarrow> bank \<Rightarrow> string \<Rightarrow> commit_response \<times> bank" where
  "CommitTransaction e b tid =
     (case prepared_transactions b tid of
        None \<Rightarrow> (CommitTransactionResponse False [S ''Transaction not prepared''], b)
      | Some tx_info \<Rightarrow>
          if \<not> ready tx_info then (CommitTransactionResponse False (message tx_info), b)
          else
            let d = details tx_info in
            if (d_type d = ''debit'' \<or> d_type d = ''credit'') \<and> map_of (users b) (d_username d) = None
            then (CommitTransactionResponse False
                    [S ''Error committing transaction: '', S (CHR 0x27 # d_username d @ [CHR 0x27])], b)
            else
              let b1 = (if d_type d = ''debit''
                        then b\<lparr>users := adjust_balance (d_username d) (- d_amount d) (users b)\<rparr>
                        else if d_type d = ''credit''
                        then b\<lparr>users := adjust_balance (d_username d) (d_amount d) (users b)\<rparr>
                        else b);
                  b2 = record_transaction e b1 (d_account_id d) (d_type d) (d_amount d)
                         (d_counterparty d) tid;
                  b3 = b2\<lparr>prepared_transactions := (prepared_transactions b2)(tid := None)\<rparr>
              in (CommitTransactionResponse True [S ''Transaction committed successfully''], b3))"

definition AbortTransaction :: "bank \<Rightarrow> string \<Rightarrow> abort_response \<times> bank" where
  "AbortTransaction b tid =
     (if prepared_transactions b tid = None
      then (AbortTransactionResponse True [S ''Transaction not found, considered aborted''], b)
      else (AbortTransactionResponse True [S ''Transaction aborted successfully''],
            b\<lparr>prepared_transactions := (prepared_transactions b)(tid := None)\<rparr>))"

section \<open>The gateway\<close>

subsection \<open>Calls to the banks\<close>

text \<open>
  A call through a bank stub either returns the bank's response or raises
  \<^verbatim>\<open>grpc.RpcError\<close>, of which the gateway reads \<^verbatim>\<open>e.code()\<close> (kept by its name,
  such as \<^verbatim>\<open>DEADLINE_EXCEEDED\<close>) and \<^verbatim>\<open>e.details()\<close>.
\<close>

datatype 'a rpc = Reply 'a | RpcError string string

text \<open>
  Everything outside the gateway process is a parameter: the stubs of
  \<^verbatim>\<open>self.bank_stubs\<close>, indexed by the bank's name, and the clock \<^verbatim>\<open>time.time()\<close>.
  A call takes the state \<open>'w\<close> of the world outside (the banks, the network, the time)
  to the state after it; the clock is read from that state, so time passes while a call is
  in flight and not between two statements of the gateway. The calls of
  \<^verbatim>\<open>_process_payment_2pc\<close> carry their \<^verbatim>\<open>timeout\<close>; \<^verbatim>\<open>GetBalance\<close> is called
  without one.
\<close>

record 'w bank_stubs =
  stub_GetBalance :: "string \<Rightarrow> string \<Rightarrow> 'w \<Rightarrow> balance_response rpc \<times> 'w"
  stub_PrepareTransaction :: "string \<Rightarrow> prepare_request \<Rightarrow> real \<Rightarrow> 'w \<Rightarrow> prepare_response rpc \<times> 'w"
  stub_CommitTransaction :: "string \<Rightarrow> string \<Rightarrow> real \<Rightarrow> 'w \<Rightarrow> commit_response rpc \<times> 'w"
  stub_AbortTransaction :: "string \<Rightarrow> string \<Rightarrow> real \<Rightarrow> 'w \<Rightarrow> abort_response rpc \<times> 'w"
  clock :: "'w \<Rightarrow> real"

definition BANK_SERVERS :: "(string \<times> string) list" where
  "BANK_SERVERS = [(''Bank1'', ''localhost:50052''), (''Bank2'', ''localhost:50053'')]"

text \<open>
  The keys of \<^verbatim>\<open>self.bank_stubs\<close>. A stub is \<^verbatim>\<open>None\<close> only if the certificate files
  cannot be read, and \<^verbatim>\<open>serve\<close> reads the same files before it creates the servicer;
  every stub is taken to be there.
\<close>

definition bank_stubs_keys :: "string list" where
  "bank_stubs_keys = map fst BANK_SERVERS"

definition TPC_TIMEOUT_SECONDS :: real where
  "TPC_TIMEOUT_SECONDS = 10"

subsection \<open>Tokens, requests and responses\<close>

record token_info =
  tok_username :: string
  tok_bank :: string
  tok_account :: string
  expires :: real

record payment_request =
  req_token :: string
  req_sender_account :: string
  req_receiver_account :: string
  req_receiver_bank :: string
  req_amount :: real
  req_payment_id :: string

record payment_response =
  success :: bool
  rsp_transaction_id :: string
  status :: string
  rsp_message :: fstring

text \<open>The keyword arguments of the source's constructor, in one order.\<close>

definition PaymentResponse :: "bool \<Rightarrow> string \<Rightarrow> string \<Rightarrow> fstring \<Rightarrow> payment_response" where
  "PaymentResponse ok tid st m =
     \<lparr>success = ok, rsp_transaction_id = tid, status = st, rsp_message = m\<rparr>"

text \<open>The two module-level dicts \<^verbatim>\<open>active_tokens\<close> and \<^verbatim>\<open>PROCESSED_KEYS\<close>.\<close>

record gateway =
  active_tokens :: "string \<rightharpoonup> token_info"
  PROCESSED_KEYS :: "string \<rightharpoonup> payment_response"

text \<open>
  What a service method hands back: a response together with the status code and details
  it has set on the context (\<open>None\<close> when it set none), or an exception it did not catch.
\<close>

datatype handler_result =
    Response payment_response "(string \<times> string) option"
  | Exception string

subsection \<open>The authentication interceptor\<close>

datatype interception = Continue | Unauthenticated

definition auth_required_methods :: "string list" where
  "auth_required_methods =
     [''/payment.PaymentGateway/CheckBalance'',
      ''/payment.PaymentGateway/ProcessPayment'',
      ''/payment.PaymentGateway/GetTransactionHistory'']"

text \<open>
  \<^verbatim>\<open>AuthInterceptor.intercept_service\<close>, given the clock reading and the token table.
  \<^verbatim>\<open>dict(invocation_metadata)\<close> keeps the last value of a repeated key.
\<close>

definition intercept_service ::
  "real \<Rightarrow> (string \<rightharpoonup> token_info) \<Rightarrow> string \<Rightarrow> (string \<times> string) list \<Rightarrow> interception" where
  "intercept_service time_now tokens method invocation_metadata =
     (if method = ''/payment.PaymentGateway/Authenticate'' then Continue
      else if method \<in> set auth_required_methods then
        (case map_of (rev invocation_metadata) ''token'' of
           None \<Rightarrow> Unauthenticated
         | Some token \<Rightarrow>
             (case tokens token of
                None \<Rightarrow> Unauthenticated
              | Some user_info \<Rightarrow>
                  if expires user_info < time_now then Unauthenticated else Continue))
      else Continue)"

subsection \<open>The two-phase commit coordinator\<close>

text \<open>
  \<^verbatim>\<open>_is_retriable_error\<close> builds a list and ends without a \<^verbatim>\<open>return\<close>: its value is
  Python's \<^verbatim>\<open>None\<close>, which \<^verbatim>\<open>not\<close> reads as false.
\<close>

definition is_retriable_error :: "payment_response \<Rightarrow> bool option" where
  "is_retriable_error response =
     (let retriable_error =
            [''Bank communication error'', ''Connection Failed'', ''Timeout'', ''Server unavailable'']
      in None)"

fun truthy :: "bool option \<Rightarrow> bool" where
  "truthy None = False"
| "truthy (Some v) = v"

definition sender_tx_id :: "string \<Rightarrow> string \<Rightarrow> string" where
  "sender_tx_id global_transaction_id payment_id = global_transaction_id @ ''-sender-'' @ payment_id"

definition receiver_tx_id :: "string \<Rightarrow> string \<Rightarrow> string" where
  "receiver_tx_id global_transaction_id payment_id = global_transaction_id @ ''-receiver-'' @ payment_id"

text \<open>
  An abort is called with the timeout 2 inside \<^verbatim>\<open>try ... except Exception\<close>; neither
  its response nor its failure is looked at.
\<close>

definition try_abort :: "'w bank_stubs \<Rightarrow> string \<Rightarrow> string \<Rightarrow> 'w \<Rightarrow> 'w" where
  "try_abort net bank tid w = snd (stub_AbortTransaction net bank tid 2 w)"

text \<open>
  \<^verbatim>\<open>_process_payment_2pc\<close>, in three parts that follow one another in the source: the
  commit phase (from "PHASE 2"), the preparation of the receiver with the check that ends
  phase 1, and the beginning. \<open>g\<close> is the value \<^verbatim>\<open>str(uuid.uuid4())\<close> drawn in its first
  line. The stubs raise \<^verbatim>\<open>grpc.RpcError\<close> only, so the outer
  \<^verbatim>\<open>except Exception\<close> has nothing to catch.
\<close>

definition tpc_commit ::
  "'w bank_stubs \<Rightarrow> string \<Rightarrow> string \<Rightarrow> string \<Rightarrow> string \<Rightarrow> string \<Rightarrow> 'w \<Rightarrow> payment_response \<times> 'w" where
  "tpc_commit net g sender_bank receiver_bank s_tx r_tx w =
     (let deadline = clock net w + TPC_TIMEOUT_SECONDS in
      case stub_CommitTransaction net sender_bank s_tx (max 0 (deadline - clock net w)) w of
        (RpcError code dt, w1) \<Rightarrow>
          if code = ''DEADLINE_EXCEEDED''
          then let w2 = try_abort net receiver_bank r_tx w1;
                   w3 = try_abort net sender_bank s_tx w2
               in (PaymentResponse False g ''failed''
                     [S ''Transaction timed out during commit phase (sender)''], w3)
          else let w2 = try_abort net receiver_bank r_tx w1
               in (PaymentResponse False g ''failed''
                     [S ''Error committing to sender bank: '', S code], w2)
      | (Reply commit_sender_response, w1) \<Rightarrow>
          if \<not> commit_success commit_sender_response
          then let w2 = try_abort net receiver_bank r_tx w1
               in (PaymentResponse False g ''failed''
                     (S ''Transaction failed during commit phase: '' # commit_message commit_sender_response),
                   w2)
          else if clock net w1 > deadline - 1
          then (PaymentResponse False g ''error''
                  [S ''CRITICAL ERROR: Transaction timed out after sender committed. System may be in inconsistent state.''],
                w1)
          else
            (case stub_CommitTransaction net receiver_bank r_tx (max 0 (deadline - clock net w1)) w1 of
               (RpcError code dt, w2) \<Rightarrow>
                 if code = ''DEADLINE_EXCEEDED''
                 then (PaymentResponse False g ''error''
                         [S ''CRITICAL ERROR: Transaction timed out during commit phase (receiver). Sender was debited but receiver may not be credited.''],
                       w2)
                 else (PaymentResponse False g ''error''
                         [S ''CRITICAL ERROR: Error committing to receiver bank: '', S code,
                          S ''. Sender was debited but receiver may not be credited.''],
                       w2)
             | (Reply commit_receiver_response, w2) \<Rightarrow>
                 if \<not> commit_success commit_receiver_response
                 then (PaymentResponse False g ''error''
                         (S ''CRITICAL ERROR: Sender debited but receiver credit failed: ''
                            # commit_message commit_receiver_response),
                       w2)
                 else (PaymentResponse True g ''completed'' [S ''Payment processed successfully''], w2)))"

definition tpc_prepare_receiver ::
  "'w bank_stubs \<Rightarrow> string \<Rightarrow> string \<Rightarrow> string \<Rightarrow> string \<Rightarrow> string \<Rightarrow> prepare_request \<Rightarrow> real \<Rightarrow> 'w
     \<Rightarrow> payment_response \<times> 'w" where
  "tpc_prepare_receiver net g sender_bank receiver_bank s_tx r_tx receiver_prepare_request deadline w =
     (case stub_PrepareTransaction net receiver_bank receiver_prepare_request
             (max 0 (deadline - clock net w)) w of
        (RpcError code dt, w1) \<Rightarrow>
          let w2 = try_abort net sender_bank s_tx w1 in
          if code = ''DEADLINE_EXCEEDED''
          then (PaymentResponse False g ''failed''
                  [S ''Transaction timed out during preparation (receiver)''], w2)
          else (PaymentResponse False g ''failed''
                  [S ''Error communicating with receiver bank: '', S code], w2)
      | (Reply receiver_prepare_response, w1) \<Rightarrow>
          if \<not> vote receiver_prepare_response
          then let w2 = try_abort net sender_bank s_tx w1
               in (PaymentResponse False g ''failed''
                     (S ''Receiver bank cannot process: '' # vote_message receiver_prepare_response), w2)
          else if clock net w1 > deadline - 1
          then let w2 = try_abort net sender_bank s_tx w1;
                   w3 = try_abort net receiver_bank r_tx w2
               in (PaymentResponse False g ''failed''
                     [S ''Transaction timed out before commit phase''], w3)
          else tpc_commit net g sender_bank receiver_bank s_tx r_tx w1)"

definition process_payment_2pc ::
  "'w bank_stubs \<Rightarrow> string \<Rightarrow> string \<Rightarrow> string \<Rightarrow> string \<Rightarrow> string \<Rightarrow> string \<Rightarrow> real \<Rightarrow> 'w
     \<Rightarrow> payment_response \<times> 'w" where
  "process_payment_2pc net g payment_id sender_bank sender_account receiver_bank receiver_account amt w =
     (if sender_bank = receiver_bank \<and> sender_account = receiver_account
      then (PaymentResponse True g ''completed''
              [S ''Self-transfer processed successfully (no balance change)''], w)
      else if sender_bank \<notin> set bank_stubs_keys
      then (PaymentResponse False [] ''failed'' [S ''Sender bank '', S sender_bank, S '' not found''], w)
      else if receiver_bank \<notin> set bank_stubs_keys
      then (PaymentResponse False [] ''failed'' [S ''Receiver bank '', S receiver_bank, S '' not found''], w)
      else
        let s_tx = sender_tx_id g payment_id;
            r_tx = receiver_tx_id g payment_id;
            sender_prepare_request =
              PrepareTransactionRequest s_tx sender_account ''debit'' amt
                (receiver_bank @ ''/'' @ receiver_account);
            receiver_prepare_request =
              PrepareTransactionRequest r_tx receiver_account ''credit'' amt
                (sender_bank @ ''/'' @ sender_account);
            deadline = clock net w + TPC_TIMEOUT_SECONDS
        in
          case stub_PrepareTransaction net sender_bank sender_prepare_request
                 (max 0 (deadline - clock net w)) w of
            (RpcError code dt, w1) \<Rightarrow>
              if code = ''DEADLINE_EXCEEDED''
              then (PaymentResponse False g ''failed''
                      [S ''Transaction timed out during preparation (sender)''], w1)
              else (PaymentResponse False g ''failed''
                      [S ''Error communicating with sender bank: '', S code], w1)
          | (Reply sender_prepare_response, w1) \<Rightarrow>
              if \<not> vote sender_prepare_response
              then (PaymentResponse False g ''failed''
                      (S ''Sender bank cannot process: '' # vote_message sender_prepare_response), w1)
              else if clock net w1 > deadline - 1
              then let w2 = try_abort net sender_bank s_tx w1
                   in (PaymentResponse False g ''failed''
                         [S ''Transaction timed out during preparation phase''], w2)
              else tpc_prepare_receiver net g sender_bank receiver_bank s_tx r_tx
                     receiver_prepare_request deadline w1)"

subsection \<open>ProcessPayment\<close>

text \<open>\<^verbatim>\<open>if payment_id: PROCESSED_KEYS[payment_id] = response\<close>\<close>

definition cache_response :: "string \<Rightarrow> payment_response \<Rightarrow> gateway \<Rightarrow> gateway" where
  "cache_response payment_id response gw =
     (if payment_id \<noteq> [] then gw\<lparr>PROCESSED_KEYS := (PROCESSED_KEYS gw)(payment_id \<mapsto> response)\<rparr>
      else gw)"

text \<open>
  The idempotency check at the head of \<^verbatim>\<open>ProcessPayment\<close>: the cached response that is
  returned at once, if there is one.
\<close>

definition cached_result :: "gateway \<Rightarrow> string \<Rightarrow> payment_response option" where
  "cached_result gw payment_id =
     (if payment_id \<noteq> [] then
        (case PROCESSED_KEYS gw payment_id of
           None \<Rightarrow> None
         | Some cached_response \<Rightarrow>
             if success cached_response \<or> \<not> truthy (is_retriable_error cached_response)
             then Some cached_response else None)
      else None)"

text \<open>
  \<^verbatim>\<open>ProcessPayment\<close> from "Get receiver info from request" on. The sender's bank comes
  from the token; \<^verbatim>\<open>self.bank_stubs[sender_bank]\<close> raises \<^verbatim>\<open>KeyError\<close> for a bank
  that has no stub, which no handler catches.
\<close>

definition payment_attempt ::
  "'w bank_stubs \<Rightarrow> string \<Rightarrow> payment_request \<Rightarrow> string \<Rightarrow> string \<Rightarrow> gateway \<Rightarrow> 'w
     \<Rightarrow> handler_result \<times> gateway \<times> 'w" where
  "payment_attempt net g request sender_bank sender_account gw w =
     (let payment_id = req_payment_id request;
          receiver_bank = req_receiver_bank request;
          receiver_account = req_receiver_account request;
          amt = req_amount request
      in
        if receiver_bank \<notin> set bank_stubs_keys
        then let response = PaymentResponse False [] ''failed''
                              [S ''Receiver bank '', S receiver_bank, S '' not found'']
             in (Response response None, cache_response payment_id response gw, w)
        else if sender_bank \<notin> set bank_stubs_keys
        then (Exception ''KeyError'', gw, w)
        else
          case stub_GetBalance net sender_bank sender_account w of
            (RpcError code dt, w1) \<Rightarrow>
              let response = PaymentResponse False [] ''failed'' [S ''Payment failed: '', S dt]
              in (Response response (Some (code, ''Bank communication error: '' @ dt)),
                  cache_response payment_id response gw, w1)
          | (Reply balance_response, w1) \<Rightarrow>
              if \<not> balance_success balance_response
              then let response = PaymentResponse False [] ''failed''
                                    (S ''Could not verify balance: '' # balance_message balance_response)
                   in (Response response None, cache_response payment_id response gw, w1)
              else if balance_value balance_response < amt
              then let response = PaymentResponse False [] ''failed''
                                    [S ''Authorization failed: Insufficient funds. Available: '',
                                     F (balance_value balance_response), S '', Required: '', F amt]
                   in (Response response (Some (''PERMISSION_DENIED'', ''Insufficient funds'')),
                       cache_response payment_id response gw, w1)
              else
                case process_payment_2pc net g payment_id sender_bank sender_account
                       receiver_bank receiver_account amt w1 of
                  (payment_response, w2) \<Rightarrow>
                    (Response payment_response None,
                     (if success payment_response \<or> \<not> truthy (is_retriable_error payment_response)
                      then cache_response payment_id payment_response gw else gw),
                     w2))"

definition ProcessPayment ::
  "'w bank_stubs \<Rightarrow> string \<Rightarrow> payment_request \<Rightarrow> gateway \<Rightarrow> 'w \<Rightarrow> handler_result \<times> gateway \<times> 'w" where
  "ProcessPayment net g request gw w =
     (case active_tokens gw (req_token request) of
        None \<Rightarrow>
          (Response (PaymentResponse False [] ''failed'' [S ''Authentication failed: Invalid token''])
             (Some (''UNAUTHENTICATED'', ''Invalid authentication token'')), gw, w)
      | Some sender_info \<Rightarrow>
          let sender_bank = tok_bank sender_info;
              sender_account = tok_account sender_info
          in
            if req_sender_account request \<noteq> ''self'' \<and> req_sender_account request \<noteq> sender_account
            then (Response (PaymentResponse False [] ''failed'' [S ''Authorization failed: Not your account''])
                    (Some (''PERMISSION_DENIED'',
                           ''You are not authorized to initiate payments from account ''
                             @ req_sender_account request)), gw, w)
            else
              case cached_result gw (req_payment_id request) of
                Some cached_response \<Rightarrow> (Response cached_response None, gw, w)
              | None \<Rightarrow> payment_attempt net g request sender_bank sender_account gw w)"

text \<open>
  A \<^verbatim>\<open>ProcessPayment\<close> call as the server handles it: the interceptor first, on the
  call's metadata, then the service method, on the request. A rejected call gets the
  handler that sets \<^verbatim>\<open>UNAUTHENTICATED\<close> and returns \<^verbatim>\<open>None\<close>. (The logging
  interceptor only logs.)
\<close>

datatype served = Rejected | Handled handler_result

definition serve_ProcessPayment ::
  "'w bank_stubs \<Rightarrow> string \<Rightarrow> (string \<times> string) list \<Rightarrow> payment_request \<Rightarrow> gateway \<Rightarrow> 'w
     \<Rightarrow> served \<times> gateway \<times> 'w" where
  "serve_ProcessPayment net g invocation_metadata request gw w =
     (case intercept_service (clock net w) (active_tokens gw)
             ''/payment.PaymentGateway/ProcessPayment'' invocation_metadata of
        Unauthenticated \<Rightarrow> (Rejected, gw, w)
      | Continue \<Rightarrow>
          (case ProcessPayment net g request gw w of
             (r, gw1, w1) \<Rightarrow> (Handled r, gw1, w1)))"

subsection \<open>Recording the calls\<close>

text \<open>
  To speak about the calls the gateway issues, the stubs are wrapped so that the world
  also carries the list of the calls made so far, each with its outcome.
\<close>

datatype rpc_event =
    GetBalanceCall string string "balance_response rpc"
  | PrepareCall string prepare_request "prepare_response rpc"
  | CommitCall string string "commit_response rpc"
  | AbortCall string string "abort_response rpc"

definition traced :: "'w bank_stubs \<Rightarrow> ('w \<times> rpc_event list) bank_stubs" where
  "traced net =
     \<lparr>stub_GetBalance = (\<lambda>bank aid (w, tr).
        case stub_GetBalance net bank aid w of (r, w1) \<Rightarrow> (r, (w1, tr @ [GetBalanceCall bank aid r]))),
      stub_PrepareTransaction = (\<lambda>bank rq timeout (w, tr).
        case stub_PrepareTransaction net bank rq timeout w of
          (r, w1) \<Rightarrow> (r, (w1, tr @ [PrepareCall bank rq r]))),
      stub_CommitTransaction = (\<lambda>bank tid timeout (w, tr).
        case stub_CommitTransaction net bank tid timeout w of
          (r, w1) \<Rightarrow> (r, (w1, tr @ [CommitCall bank tid r]))),
      stub_AbortTransaction = (\<lambda>bank tid timeout (w, tr).
        case stub_AbortTransaction net bank tid timeout w of
          (r, w1) \<Rightarrow> (r, (w1, tr @ [AbortCall bank tid r]))),
      clock = (\<lambda>(w, tr). clock net w)\<rparr>"

fun is_abort :: "rpc_event \<Rightarrow> bool" where
  "is_abort (AbortCall bank tid r) = True"
| "is_abort ev = False"

text \<open>A \<^verbatim>\<open>CommitTransaction\<close> call for this bank and transaction id that was answered with success.\<close>

fun is_commit_ack :: "string \<Rightarrow> string \<Rightarrow> rpc_event \<Rightarrow> bool" where
  "is_commit_ack bank tid (CommitCall bank' tid' (Reply r)) =
     (bank' = bank \<and> tid' = tid \<and> commit_success r)"
| "is_commit_ack bank tid ev = False"

subsection \<open>Sample data and runs\<close>

text \<open>
  The accounts \<^verbatim>\<open>_load_user_credentials\<close> creates when a bank has no data file:
  \<^verbatim>\<open>user1\<close> .. \<^verbatim>\<open>user5\<close> with accounts \<^verbatim>\<open>ACC001\<close> .. \<^verbatim>\<open>ACC005\<close> and
  balances 1000 .. 5000.
\<close>

definition sample_users :: "(string \<times> user_data) list" where
  "sample_users =
     [(''user1'', \<lparr>password = ''pass1'', account_id = ''ACC001'', name = ''User 1'', balance = 1000\<rparr>),
      (''user2'', \<lparr>password = ''pass2'', account_id = ''ACC002'', name = ''User 2'', balance = 2000\<rparr>),
      (''user3'', \<lparr>password = ''pass3'', account_id = ''ACC003'', name = ''User 3'', balance = 3000\<rparr>),
      (''user4'', \<lparr>password = ''pass4'', account_id = ''ACC004'', name = ''User 4'', balance = 4000\<rparr>),
      (''user5'', \<lparr>password = ''pass5'', account_id = ''ACC005'', name = ''User 5'', balance = 5000\<rparr>)]"

definition sample_bank :: bank where
  "sample_bank =
     \<lparr>bank_name = ''Bank1'', users = sample_users, transactions = Map.empty,
      prepared_transactions = Map.empty\<rparr>"

definition e0 :: env where
  "e0 = \<lparr>env_time = 0, env_uuid = ''uuid-0''\<rparr>"

definition balances :: "bank \<Rightarrow> (string \<times> real) list" where
  "balances b = map (\<lambda>(u, ud). (account_id ud, balance ud)) (users b)"

text \<open>
  Two debits of 600 are prepared against \<^verbatim>\<open>ACC001\<close> (balance 1000), then both are
  committed: the state before the second commit, and the second commit.
\<close>

definition overdraw_before :: bank where
  "overdraw_before =
     (let b1 = snd (PrepareTransaction e0 sample_bank
                 (PrepareTransactionRequest ''t1'' ''ACC001'' ''debit'' 600 ''Bank2/ACC002''));
          b2 = snd (PrepareTransaction e0 b1
                 (PrepareTransactionRequest ''t2'' ''ACC001'' ''debit'' 600 ''Bank2/ACC003''))
      in snd (CommitTransaction e0 b2 ''t1''))"

definition overdraw_commit :: "commit_response \<times> bank" where
  "overdraw_commit = CommitTransaction e0 overdraw_before ''t2''"

text \<open>
  A debit of 5000 from \<^verbatim>\<open>ACC001\<close> (balance 1000) is prepared under the id \<^verbatim>\<open>t1\<close>
  and refused. Then either the same id is prepared again with the amount 50, or a credit
  of 9000 to \<^verbatim>\<open>ACC001\<close> is prepared and committed and the first request is repeated
  unchanged.
\<close>

definition refused_request :: prepare_request where
  "refused_request = PrepareTransactionRequest ''t1'' ''ACC001'' ''debit'' 5000 ''Bank2/ACC002''"

definition refused_first :: "prepare_response \<times> bank" where
  "refused_first = PrepareTransaction e0 sample_bank refused_request"

definition refused_then_smaller :: "prepare_response \<times> bank" where
  "refused_then_smaller =
     PrepareTransaction e0 (snd refused_first)
       (PrepareTransactionRequest ''t1'' ''ACC001'' ''debit'' 50 ''Bank2/ACC002'')"

definition refused_then_credited :: "prepare_response \<times> bank" where
  "refused_then_credited =
     (let b1 = snd refused_first;
          b2 = snd (PrepareTransaction e0 b1
                 (PrepareTransactionRequest ''t9'' ''ACC001'' ''credit'' 9000 ''Bank2/ACC002''));
          b3 = snd (CommitTransaction e0 b2 ''t9'')
      in PrepareTransaction e0 b3 refused_request)"

subsection \<open>A network of banks for running scenarios\<close>

text \<open>
  To run the gateway against the bank servers modelled above, the world is made of the
  banks' states, a clock and a script that says, call by call, what the network does and
  how many seconds the call takes: it delivers the request and the response, or the call
  fails before the bank sees the request, or the bank handles the request and the
  response is lost; a failed call raises \<^verbatim>\<open>grpc.RpcError\<close> with the given code. When
  the script is used up, calls are delivered at once.
\<close>

datatype fault = Deliver | Unreachable string | ReplyLost string

record world =
  banks :: "string \<rightharpoonup> bank"
  now :: real
  faults :: "(fault \<times> real) list"

definition sim_call :: "(env \<Rightarrow> bank \<Rightarrow> 'a \<times> bank) \<Rightarrow> string \<Rightarrow> world \<Rightarrow> 'a rpc \<times> world" where
  "sim_call handler at_bank w =
     (case (case faults w of [] \<Rightarrow> (Deliver, 0) | x # xs \<Rightarrow> x) of
        (f, seconds) \<Rightarrow>
          let w1 = w\<lparr>now := now w + seconds, faults := tl (faults w)\<rparr> in
          case f of
            Unreachable code \<Rightarrow> (RpcError code ''request not delivered'', w1)
          | ReplyLost code \<Rightarrow>
              (case banks w at_bank of
                 None \<Rightarrow> (RpcError ''UNAVAILABLE'' ''no such server'', w1)
               | Some b \<Rightarrow>
                  (case handler \<lparr>env_time = now w, env_uuid = ''uuid-0''\<rparr> b of
                     (r, b1) \<Rightarrow> (RpcError code ''response lost'',
                                 w1\<lparr>banks := (banks w)(at_bank \<mapsto> b1)\<rparr>)))
          | Deliver \<Rightarrow>
              (case banks w at_bank of
                 None \<Rightarrow> (RpcError ''UNAVAILABLE'' ''no such server'', w1)
               | Some b \<Rightarrow>
                  (case handler \<lparr>env_time = now w, env_uuid = ''uuid-0''\<rparr> b of
                     (r, b1) \<Rightarrow> (Reply r, w1\<lparr>banks := (banks w)(at_bank \<mapsto> b1)\<rparr>))))"

text \<open>
  A call whose method has set a status code other than OK on its context raises
  \<^verbatim>\<open>grpc.RpcError\<close> with that code at the caller.
\<close>

fun with_status :: "('a \<times> (string \<times> string) option) rpc \<Rightarrow> 'a rpc" where
  "with_status (Reply (r, None)) = Reply r"
| "with_status (Reply (r, Some (code, dt))) = RpcError code dt"
| "with_status (RpcError code dt) = RpcError code dt"

definition sim_net :: "world bank_stubs" where
  "sim_net =
     \<lparr>stub_GetBalance = (\<lambda>bank aid w.
        case sim_call (\<lambda>e b. (GetBalance b aid, b)) bank w of (r, w1) \<Rightarrow> (with_status r, w1)),
      stub_PrepareTransaction = (\<lambda>bank rq timeout. sim_call (\<lambda>e b. PrepareTransaction e b rq) bank),
      stub_CommitTransaction = (\<lambda>bank tid timeout. sim_call (\<lambda>e b. CommitTransaction e b tid) bank),
      stub_AbortTransaction = (\<lambda>bank tid timeout. sim_call (\<lambda>e b. AbortTransaction b tid) bank),
      clock = now\<rparr>"

text \<open>
  Two banks with the sample accounts, at time 1000; \<^verbatim>\<open>user1\<close> of Bank1 holds a token
  that is valid until 4000 and an older one that expired at 500 and is still in the table
  (the sweep of expired tokens runs once an hour).
\<close>

definition world0 :: world where
  "world0 = \<lparr>banks = Map.empty(''Bank1'' \<mapsto> sample_bank,
                                ''Bank2'' \<mapsto> sample_bank\<lparr>bank_name := ''Bank2''\<rparr>),
             now = 1000, faults = []\<rparr>"

definition gateway0 :: gateway where
  "gateway0 =
     \<lparr>active_tokens = Map.empty(
        ''user1-token'' \<mapsto> \<lparr>tok_username = ''user1'', tok_bank = ''Bank1'',
                             tok_account = ''ACC001'', expires = 4000\<rparr>,
        ''user1-old-token'' \<mapsto> \<lparr>tok_username = ''user1'', tok_bank = ''Bank1'',
                                 tok_account = ''ACC001'', expires = 500\<rparr>),
      PROCESSED_KEYS = Map.empty\<rparr>"

text \<open>The balance of an account at a bank of the world, and the bank's ledger for it.\<close>

definition balance_at :: "world \<Rightarrow> string \<Rightarrow> string \<Rightarrow> real option" where
  "balance_at w at_bank aid =
     (case banks w at_bank of
        None \<Rightarrow> None
      | Some b \<Rightarrow> map_option (balance \<circ> snd) (find_account (users b) aid))"

definition ledger_at :: "world \<Rightarrow> string \<Rightarrow> string \<Rightarrow> ledger_entry list" where
  "ledger_at w at_bank aid =
     (case banks w at_bank of
        None \<Rightarrow> []
      | Some b \<Rightarrow> (case transactions b aid of None \<Rightarrow> [] | Some l \<Rightarrow> l))"

text \<open>
  \<^verbatim>\<open>user1\<close> pays 150 to \<^verbatim>\<open>ACC002\<close> at Bank2 (payment id \<^verbatim>\<open>p-1\<close>); the coordinator
  draws the global id \<^verbatim>\<open>g-1\<close>. In this run the response to the receiver's commit is
  lost.
\<close>

definition receiver_commit_lost :: "payment_response \<times> world \<times> rpc_event list" where
  "receiver_commit_lost =
     process_payment_2pc (traced sim_net) ''g-1'' ''p-1'' ''Bank1'' ''ACC001'' ''Bank2'' ''ACC002'' 150
       (world0\<lparr>faults := [(Deliver, 0), (Deliver, 0), (Deliver, 0), (ReplyLost ''UNAVAILABLE'', 0)]\<rparr>, [])"


subsection \<open>Runs of the gateway\<close>

text \<open>A response is consistent when its \<^verbatim>\<open>success\<close> flag says what its status says.\<close>

definition consistent :: "payment_response \<Rightarrow> bool" where
  "consistent r = (success r = (status r = ''completed''))"

text \<open>
  The gateway process starts with an empty \<^verbatim>\<open>PROCESSED_KEYS\<close>, which only
  \<^verbatim>\<open>ProcessPayment\<close> writes. A run is a list of \<^verbatim>\<open>ProcessPayment\<close> calls, each
  with the global id it draws, the token table and the world at the time of the call, and
  the request; the cache is handed from each call to the next.
\<close>

fun gateway_run ::
  "'w bank_stubs \<Rightarrow> (string \<times> (string \<rightharpoonup> token_info) \<times> payment_request \<times> 'w) list
     \<Rightarrow> (string \<rightharpoonup> payment_response) \<Rightarrow> handler_result list" where
  "gateway_run net [] cache = []"
| "gateway_run net ((g, tokens, request, w) # calls) cache =
     (case ProcessPayment net g request \<lparr>active_tokens = tokens, PROCESSED_KEYS = cache\<rparr> w of
        (res, gw1, w1) \<Rightarrow> res # gateway_run net calls (PROCESSED_KEYS gw1))"

definition cache_consistent :: "(string \<rightharpoonup> payment_response) \<Rightarrow> bool" where
  "cache_consistent c = (\<forall>pid r. c pid = Some r \<longrightarrow> consistent r)"

fun result_consistent :: "handler_result \<Rightarrow> bool" where
  "result_consistent (Response r c) = consistent r"
| "result_consistent (Exception e) = True"

definition happy_request :: payment_request where
  "happy_request =
     \<lparr>req_token = ''user1-token'', req_sender_account = ''self'', req_receiver_account = ''ACC002'',
      req_receiver_bank = ''Bank2'', req_amount = 150, req_payment_id = ''p-1''\<rparr>"

subsection \<open>Scenarios\<close>

text \<open>The transaction id a recorded call carries, if it is a call of the two-phase commit.\<close>

fun event_tx_id :: "rpc_event \<Rightarrow> string option" where
  "event_tx_id (GetBalanceCall bank aid r) = None"
| "event_tx_id (PrepareCall bank (PrepareTransactionRequest tid aid ty amt cp) r) = Some tid"
| "event_tx_id (CommitCall bank tid r) = Some tid"
| "event_tx_id (AbortCall bank tid r) = Some tid"

text \<open>Whether a bank of the world holds a prepared entry under a transaction id.\<close>

definition prepared_at :: "world \<Rightarrow> string \<Rightarrow> string \<Rightarrow> bool" where
  "prepared_at w at_bank tid =
     (case banks w at_bank of
        None \<Rightarrow> False
      | Some b \<Rightarrow> prepared_transactions b tid \<noteq> None)"

text \<open>
  Two attempts of the payment \<^verbatim>\<open>p-1\<close>. In the first the coordinator draws \<^verbatim>\<open>g-1\<close>;
  the receiver's bank cannot be reached, and neither can the sender's bank for the abort.
  In the second it draws \<^verbatim>\<open>g-2\<close> and the network is healthy.
\<close>

definition first_attempt :: "payment_response \<times> world \<times> rpc_event list" where
  "first_attempt =
     process_payment_2pc (traced sim_net) ''g-1'' ''p-1'' ''Bank1'' ''ACC001'' ''Bank2'' ''ACC002'' 150
       (world0\<lparr>faults := [(Deliver, 0), (Unreachable ''UNAVAILABLE'', 0), (Unreachable ''UNAVAILABLE'', 0)]\<rparr>, [])"

definition second_attempt :: "payment_response \<times> world \<times> rpc_event list" where
  "second_attempt =
     process_payment_2pc (traced sim_net) ''g-2'' ''p-1'' ''Bank1'' ''ACC001'' ''Bank2'' ''ACC002'' 150
       (fst (snd first_attempt), [])"

text \<open>
  \<^verbatim>\<open>user1\<close> pays 100 to \<^verbatim>\<open>ACC002\<close> at Bank2 under the payment id \<^verbatim>\<open>p-4\<close>. The
  balance check goes through; the sender's \<^verbatim>\<open>PrepareTransaction\<close> runs into its
  deadline. The client then sends the same request again, the network being healthy.
\<close>

definition timeout_request :: payment_request where
  "timeout_request =
     \<lparr>req_token = ''user1-token'', req_sender_account = ''self'', req_receiver_account = ''ACC002'',
      req_receiver_bank = ''Bank2'', req_amount = 100, req_payment_id = ''p-4''\<rparr>"

definition timed_out_first :: "handler_result \<times> gateway \<times> world \<times> rpc_event list" where
  "timed_out_first =
     ProcessPayment (traced sim_net) ''g-1'' timeout_request gateway0
       (world0\<lparr>faults := [(Deliver, 0), (Unreachable ''DEADLINE_EXCEEDED'', 10)]\<rparr>, [])"

definition timed_out_retry :: "handler_result \<times> gateway \<times> world \<times> rpc_event list" where
  "timed_out_retry =
     ProcessPayment (traced sim_net) ''g-2'' timeout_request (fst (snd timed_out_first))
       (fst (snd (snd timed_out_first)), [])"

text \<open>
  A \<^verbatim>\<open>ProcessPayment\<close> call at time 1000 whose metadata carry the valid token of
  \<^verbatim>\<open>user1\<close> and whose request body carries the token of \<^verbatim>\<open>user1\<close> that expired at
  500.
\<close>

definition expired_token_request :: payment_request where
  "expired_token_request =
     \<lparr>req_token = ''user1-old-token'', req_sender_account = ''self'', req_receiver_account = ''ACC002'',
      req_receiver_bank = ''Bank2'', req_amount = 150, req_payment_id = ''p-6''\<rparr>"

definition expired_token_call :: "served \<times> gateway \<times> world \<times> rpc_event list" where
  "expired_token_call =
     serve_ProcessPayment (traced sim_net) ''g-1'' [(''token'', ''user1-token'')]
       expired_token_request gateway0 (world0, [])"

text \<open>
  \<^verbatim>\<open>user1\<close> pays \<^verbatim>\<open>ACC001\<close> at Bank1, its own account: 50 under the payment id
  \<^verbatim>\<open>p-5\<close>, and, in another run, 5000, which is more than the balance.
\<close>

definition self_request :: payment_request where
  "self_request =
     \<lparr>req_token = ''user1-token'', req_sender_account = ''self'', req_receiver_account = ''ACC001'',
      req_receiver_bank = ''Bank1'', req_amount = 50, req_payment_id = ''p-5''\<rparr>"

definition self_transfer :: "handler_result \<times> gateway \<times> world \<times> rpc_event list" where
  "self_transfer = ProcessPayment (traced sim_net) ''g-1'' self_request gateway0 (world0, [])"

definition self_overdrawn :: "handler_result \<times> gateway \<times> world \<times> rpc_event list" where
  "self_overdrawn =
     ProcessPayment (traced sim_net) ''g-1'' (self_request\<lparr>req_amount := 5000\<rparr>) gateway0 (world0, [])"

section \<open>The client\<close>

text \<open>
  \<^verbatim>\<open>PaymentClient\<close> keeps \<^verbatim>\<open>is_connected\<close>, \<^verbatim>\<open>token\<close> and the directory
  \<^verbatim>\<open>self.pending_dir\<close> with one file per pending payment, named after the payment id.
  The directory is a list of file names with their contents, in the order
  \<^verbatim>\<open>os.listdir\<close> gives them; \<^verbatim>\<open>__init__\<close> creates it and nothing removes it. A file
  holds a pending payment or something \<^verbatim>\<open>json.load\<close> rejects.
\<close>

record pending_transaction =
  p_receiver_account :: string
  p_receiver_bank :: string
  p_amount :: real
  p_timestamp :: real

datatype file_content = Json pending_transaction | Unreadable

type_synonym directory = "(string \<times> file_content) list"

record client =
  is_connected :: bool
  token :: "string option"
  pending_dir :: directory





















subsection \<open>The client against the gateway\<close>



text \<open>
  \<^verbatim>\<open>user1\<close>, connected and authenticated, pays 1 to \<^verbatim>\<open>ACC999\<close> at the unknown bank
  \<^verbatim>\<open>BankZ\<close> under the payment id \<^verbatim>\<open>p-3\<close>; then the pending payments are retried.
\<close>





section \<open>Properties of the bank server\<close>

subsection \<open>Abort\<close>

text \<open>
  C9. \<^verbatim>\<open>AbortTransaction\<close> answers every transaction id with success; it changes no
  account (so no balance) and appends nothing to the ledger; the only thing it can change
  is the prepared-transaction table, from which the id is gone afterwards. An id that is
  not in the table is answered "considered aborted" and the whole bank state is as before.
\<close>

theorem AbortTransaction_success_no_effect:
  "abort_success (fst (AbortTransaction b tid)) = True
   \<and> users (snd (AbortTransaction b tid)) = users b
   \<and> transactions (snd (AbortTransaction b tid)) = transactions b
   \<and> prepared_transactions (snd (AbortTransaction b tid)) = (prepared_transactions b)(tid := None)
   \<and> (if prepared_transactions b tid = None
      then AbortTransaction b tid =
             (AbortTransactionResponse True [S ''Transaction not found, considered aborted''], b)
      else fst (AbortTransaction b tid) =
             AbortTransactionResponse True [S ''Transaction aborted successfully''])"
  by (auto simp: AbortTransaction_def)

subsection \<open>Prepare\<close>

lemma Prepare_hit:
  "prepared_transactions b tid = Some p \<Longrightarrow>
   PrepareTransaction e b (PrepareTransactionRequest tid aid ty amt cp) =
     (PrepareTransactionResponse (ready p) (message p), b)"
  by (simp add: PrepareTransaction_def)

lemma Prepare_ready_recorded:
  assumes "PrepareTransaction e b (PrepareTransactionRequest tid aid ty amt cp) = (r1, b1)"
      and "vote r1"
  shows "\<exists>p. prepared_transactions b1 tid = Some p \<and> ready p = vote r1 \<and> message p = vote_message r1"
proof (cases "prepared_transactions b tid")
  case (Some p)
  with assms show ?thesis by (auto simp add: Prepare_hit)
next
  case None
  show ?thesis
  proof (cases "find_account (users b) aid")
    case N: None
    with None assms show ?thesis by (auto simp add: PrepareTransaction_def)
  next
    case (Some ua)
    obtain u ud where ua: "ua = (u, ud)" by (cases ua)
    show ?thesis
    proof (cases "ty = ''debit'' \<and> balance ud < amt")
      case True
      with None Some ua assms show ?thesis by (auto simp add: PrepareTransaction_def)
    next
      case False
      with None Some ua assms(1)
      have "r1 = PrepareTransactionResponse True [S ''Ready to process transaction'']"
        and "prepared_transactions b1 tid =
               Some \<lparr>ready = True, message = [S ''Ready to process transaction''],
                     details = \<lparr>d_account_id = aid, d_username = u, d_type = ty, d_amount = amt,
                                d_counterparty = cp, d_timestamp = env_time e\<rparr>\<rparr>"
        by (auto simp add: PrepareTransaction_def)
      then show ?thesis by simp
    qed
  qed
qed

lemma Prepare_not_ready_unchanged:
  assumes "PrepareTransaction e b (PrepareTransactionRequest tid aid ty amt cp) = (r1, b1)"
      and "\<not> vote r1"
  shows "b1 = b"
proof (cases "prepared_transactions b tid")
  case (Some p)
  with assms show ?thesis by (auto simp add: Prepare_hit)
next
  case None
  show ?thesis
  proof (cases "find_account (users b) aid")
    case N: None
    with None assms show ?thesis by (auto simp add: PrepareTransaction_def)
  next
    case (Some ua)
    obtain u ud where ua: "ua = (u, ud)" by (cases ua)
    show ?thesis
    proof (cases "ty = ''debit'' \<and> balance ud < amt")
      case True
      with None Some ua assms show ?thesis by (auto simp add: PrepareTransaction_def)
    next
      case False
      with None Some ua assms(1)
      have "r1 = PrepareTransactionResponse True [S ''Ready to process transaction'']"
        by (auto simp add: PrepareTransaction_def)
      with assms(2) show ?thesis by simp
    qed
  qed
qed

lemma Prepare_dom:
  "dom (prepared_transactions (snd (PrepareTransaction e b (PrepareTransactionRequest tid aid ty amt cp))))
     \<subseteq> insert tid (dom (prepared_transactions b))"
  by (simp add: PrepareTransaction_def split: option.split prod.split) blast

lemma Prepare_response_indep:
  "fst (PrepareTransaction e' b (PrepareTransactionRequest tid aid ty amt cp'))
     = fst (PrepareTransaction e b (PrepareTransactionRequest tid aid ty amt cp))"
  by (simp add: PrepareTransaction_def split: option.split prod.split)

lemmas bank_run_defs =
  PrepareTransaction_def CommitTransaction_def AbortTransaction_def record_transaction_def
  adjust_balance_def sample_bank_def sample_users_def e0_def balances_def Let_def

text \<open>
  C5, as the claim states it, fails: a not-ready vote is not recorded, so a second
  \<^verbatim>\<open>PrepareTransaction\<close> with the same id is decided afresh. After the refused debit of
  5000 under \<^verbatim>\<open>t1\<close>, the same id with the amount 50 is voted ready; and the very same
  request is voted ready once a credit has raised the balance.
\<close>

theorem PrepareTransaction_not_ready_not_recorded:
  "vote (fst refused_first) = False
   \<and> prepared_transactions (snd refused_first) ''t1'' = None
   \<and> vote (fst refused_then_smaller) = True
   \<and> vote (fst refused_then_credited) = True"
  by (simp add: refused_first_def refused_then_smaller_def refused_then_credited_def
      refused_request_def bank_run_defs)

text \<open>
  C5, amended. Let two \<^verbatim>\<open>PrepareTransaction\<close> calls with the same transaction id
  follow one another. If the first votes ready, the second returns the first response
  verbatim (vote and message), whatever its other fields are, and changes nothing. If the
  first votes not-ready, it records nothing (the bank state is as before the call). If the
  second call repeats the account, the type and the amount of the first, it returns the
  first response and changes nothing, whatever the first vote was. The two calls together
  add no entry to the prepared-transaction table other than the one under this id.
\<close>

theorem PrepareTransaction_idempotent:
  assumes first: "PrepareTransaction e b (PrepareTransactionRequest tid aid ty amt cp) = (r1, b1)"
      and second: "PrepareTransaction e' b1 (PrepareTransactionRequest tid aid' ty' amt' cp') = (r2, b2)"
  shows "(vote r1 \<longrightarrow> r2 = r1 \<and> b2 = b1)
       \<and> (\<not> vote r1 \<longrightarrow> b1 = b)
       \<and> (aid' = aid \<and> ty' = ty \<and> amt' = amt \<longrightarrow> r2 = r1 \<and> b2 = b1)
       \<and> dom (prepared_transactions b2) \<subseteq> insert tid (dom (prepared_transactions b))"
proof -
  have ready_case: "r2 = r1 \<and> b2 = b1" if v: "vote r1"
  proof -
    from Prepare_ready_recorded [OF first v] obtain p
      where p: "prepared_transactions b1 tid = Some p" "ready p = vote r1"
        "message p = vote_message r1"
      by blast
    from second Prepare_hit [OF p(1)]
    have "r2 = PrepareTransactionResponse (ready p) (message p)" "b2 = b1"
      by simp_all
    with p show ?thesis by (cases r1) simp
  qed
  have not_ready_case: "b1 = b" if "\<not> vote r1"
    using Prepare_not_ready_unchanged [OF first that] .
  have same_request: "r2 = r1 \<and> b2 = b1" if same: "aid' = aid \<and> ty' = ty \<and> amt' = amt"
  proof (cases "vote r1")
    case True
    then show ?thesis by (rule ready_case)
  next
    case False
    then have b1: "b1 = b" by (rule not_ready_case)
    have "fst (PrepareTransaction e' b (PrepareTransactionRequest tid aid ty amt cp'))
            = fst (PrepareTransaction e b (PrepareTransactionRequest tid aid ty amt cp))"
      by (rule Prepare_response_indep)
    with first second same b1 have r: "r2 = r1" by simp
    with False have "\<not> vote r2" by simp
    from Prepare_not_ready_unchanged [OF second this] r show ?thesis by simp
  qed
  have d1: "dom (prepared_transactions b1) \<subseteq> insert tid (dom (prepared_transactions b))"
    using Prepare_dom [of e b tid aid ty amt cp] first by simp
  have d2: "dom (prepared_transactions b2) \<subseteq> insert tid (dom (prepared_transactions b1))"
    using Prepare_dom [of e' b1 tid aid' ty' amt' cp'] second by simp
  from d1 d2 have "dom (prepared_transactions b2) \<subseteq> insert tid (dom (prepared_transactions b))"
    by blast
  with ready_case not_ready_case same_request show ?thesis by blast
qed

text \<open>
  Two instances: a debit of 50 from \<^verbatim>\<open>ACC001\<close> is voted ready, and a second call
  under the same id, now asking for 7000 from \<^verbatim>\<open>ACC002\<close>, gets the stored answer;
  the refused debit of 5000 leaves the bank as it was, and the same request, repeated at
  once, is refused in the same words.
\<close>

theorem PrepareTransaction_idempotent_witness:
  "vote (fst (PrepareTransaction e0 sample_bank
           (PrepareTransactionRequest ''t1'' ''ACC001'' ''debit'' 50 ''Bank2/ACC002'')))
   \<and> PrepareTransaction e0
        (snd (PrepareTransaction e0 sample_bank
           (PrepareTransactionRequest ''t1'' ''ACC001'' ''debit'' 50 ''Bank2/ACC002'')))
        (PrepareTransactionRequest ''t1'' ''ACC002'' ''debit'' 7000 ''Bank2/ACC003'')
     = PrepareTransaction e0 sample_bank
           (PrepareTransactionRequest ''t1'' ''ACC001'' ''debit'' 50 ''Bank2/ACC002'')
   \<and> \<not> vote (fst refused_first)
   \<and> snd refused_first = sample_bank
   \<and> PrepareTransaction e0 (snd refused_first) refused_request = refused_first"
proof -
  let ?first = "PrepareTransaction e0 sample_bank
           (PrepareTransactionRequest ''t1'' ''ACC001'' ''debit'' 50 ''Bank2/ACC002'')"
  let ?second = "PrepareTransaction e0 (snd ?first)
           (PrepareTransactionRequest ''t1'' ''ACC002'' ''debit'' 7000 ''Bank2/ACC003'')"
  let ?again = "PrepareTransaction e0 (snd refused_first) refused_request"
  have v: "vote (fst ?first)"
    by (simp add: bank_run_defs)
  have "?first = (fst ?first, snd ?first)" and "?second = (fst ?second, snd ?second)"
    by simp_all
  from PrepareTransaction_idempotent [OF this] v
  have ready: "fst ?second = fst ?first \<and> snd ?second = snd ?first"
    by blast
  have nv: "\<not> vote (fst refused_first)"
    by (simp add: refused_first_def refused_request_def bank_run_defs)
  have "PrepareTransaction e0 sample_bank
          (PrepareTransactionRequest ''t1'' ''ACC001'' ''debit'' 5000 ''Bank2/ACC002'')
        = (fst refused_first, snd refused_first)"
    and "PrepareTransaction e0 (snd refused_first)
          (PrepareTransactionRequest ''t1'' ''ACC001'' ''debit'' 5000 ''Bank2/ACC002'')
        = (fst ?again, snd ?again)"
    by (simp_all add: refused_first_def refused_request_def)
  from PrepareTransaction_idempotent [OF this] nv
  have "snd refused_first = sample_bank \<and> fst ?again = fst refused_first \<and> snd ?again = snd refused_first"
    by blast
  with v ready nv show ?thesis by (simp add: prod_eq_iff refused_first_def [symmetric])
qed

subsection \<open>Commit\<close>

text \<open>
  C2 fails on the code. \<^verbatim>\<open>CommitTransaction\<close> subtracts the amount of a prepared
  debit without looking at the balance: with two debits of 600 prepared against the
  balance 1000, the first commit leaves 400, and the second commit, whose amount exceeds
  that balance, answers success and leaves the balance at -200.
\<close>

theorem CommitTransaction_overdraws:
  "balances overdraw_before =
     [(''ACC001'', 400), (''ACC002'', 2000), (''ACC003'', 3000), (''ACC004'', 4000), (''ACC005'', 5000)]
   \<and> map_option (d_amount \<circ> details) (prepared_transactions overdraw_before ''t2'') = Some 600
   \<and> fst overdraw_commit = CommitTransactionResponse True [S ''Transaction committed successfully'']
   \<and> balances (snd overdraw_commit) =
     [(''ACC001'', - 200), (''ACC002'', 2000), (''ACC003'', 3000), (''ACC004'', 4000), (''ACC005'', 5000)]"
  by (simp add: overdraw_commit_def overdraw_before_def bank_run_defs)

section \<open>Properties of the gateway\<close>

subsection \<open>The recorded calls\<close>

lemma traced_simps:
  "stub_GetBalance (traced net) bank aid (w, tr) =
     (case stub_GetBalance net bank aid w of (r, w1) \<Rightarrow> (r, (w1, tr @ [GetBalanceCall bank aid r])))"
  "stub_PrepareTransaction (traced net) bank rq t (w, tr) =
     (case stub_PrepareTransaction net bank rq t w of (r, w1) \<Rightarrow> (r, (w1, tr @ [PrepareCall bank rq r])))"
  "stub_CommitTransaction (traced net) bank tid t (w, tr) =
     (case stub_CommitTransaction net bank tid t w of (r, w1) \<Rightarrow> (r, (w1, tr @ [CommitCall bank tid r])))"
  "stub_AbortTransaction (traced net) bank tid t (w, tr) =
     (case stub_AbortTransaction net bank tid t w of (r, w1) \<Rightarrow> (r, (w1, tr @ [AbortCall bank tid r])))"
  "clock (traced net) (w, tr) = clock net w"
  by (simp_all add: traced_def)

lemma try_abort_traced:
  "try_abort (traced net) bank tid (w, tr) =
     (snd (stub_AbortTransaction net bank tid 2 w),
      tr @ [AbortCall bank tid (fst (stub_AbortTransaction net bank tid 2 w))])"
  by (simp add: try_abort_def traced_simps split: prod.split)

lemma tx_ids_differ: "sender_tx_id g pid \<noteq> receiver_tx_id g pid"
  by (simp add: sender_tx_id_def receiver_tx_id_def)

subsection \<open>After the sender's commit\<close>

lemma tpc_commit_trace:
  assumes "tpc_commit (traced net) g sb rb s r (w, tr0) = (resp, (w', tr))"
    and "s \<noteq> r" and "filter is_abort tr0 = []"
    and "\<not> list_ex (is_commit_ack sb s) tr0" and "\<not> list_ex (is_commit_ack rb r) tr0"
    and "list_ex (is_commit_ack sb s) tr"
  shows "filter is_abort tr = [] \<and>
         (if list_ex (is_commit_ack rb r) tr
          then status resp = ''completed'' \<and> success resp
          else status resp = ''error'' \<and> \<not> success resp)"
  using assms
  by (auto simp add: tpc_commit_def traced_simps try_abort_traced PaymentResponse_def Let_def
      split: prod.splits rpc.splits if_splits)

lemma tpc_prepare_receiver_trace:
  assumes "tpc_prepare_receiver (traced net) g sb rb s r rq d (w, tr0) = (resp, (w', tr))"
    and "s \<noteq> r" and "filter is_abort tr0 = []"
    and "\<not> list_ex (is_commit_ack sb s) tr0" and "\<not> list_ex (is_commit_ack rb r) tr0"
    and "list_ex (is_commit_ack sb s) tr"
  shows "filter is_abort tr = [] \<and>
         (if list_ex (is_commit_ack rb r) tr
          then status resp = ''completed'' \<and> success resp
          else status resp = ''error'' \<and> \<not> success resp)"
proof (cases "stub_PrepareTransaction net rb rq (max 0 (d - clock net w)) w")
  case (Pair x w1)
  show ?thesis
  proof (cases "\<exists>v. x = Reply v \<and> vote v \<and> \<not> clock net w1 > d - 1")
    case True
    then obtain v where x: "x = Reply v" "vote v" "\<not> clock net w1 > d - 1" by blast
    with Pair assms(1)
    have "tpc_commit (traced net) g sb rb s r (w1, tr0 @ [PrepareCall rb rq x]) = (resp, (w', tr))"
      by (simp add: tpc_prepare_receiver_def traced_simps)
    from tpc_commit_trace [OF this assms(2)] assms(3-6) show ?thesis by simp
  next
    case False
    with Pair assms(1,4,6) have False
      by (cases x)
         (auto simp add: tpc_prepare_receiver_def traced_simps try_abort_traced Let_def
            split: if_splits)
    then show ?thesis ..
  qed
qed

text \<open>
  C3. Take any run of \<^verbatim>\<open>_process_payment_2pc\<close>, against any banks and any network, and
  the calls it issued. If the sender's bank answered the \<^verbatim>\<open>CommitTransaction\<close> of the
  sender's transaction id with success, then the run issued no \<^verbatim>\<open>AbortTransaction\<close> at
  all, to either bank; and its response has status \<^verbatim>\<open>completed\<close> (with success) if
  the receiver's bank answered its commit with success too, and in every other case
  (the deadline check stopped the run before the receiver's commit, the receiver's commit
  answered non-success, or it raised an RPC error or timed out) it has status
  \<^verbatim>\<open>error\<close> with \<^verbatim>\<open>success = False\<close>.
\<close>

theorem no_abort_after_sender_commit:
  assumes run: "process_payment_2pc (traced net) g payment_id sender_bank sender_account
                  receiver_bank receiver_account amt (w, []) = (resp, (w', tr))"
    and acked: "list_ex (is_commit_ack sender_bank (sender_tx_id g payment_id)) tr"
  shows "filter is_abort tr = [] \<and>
         (if list_ex (is_commit_ack receiver_bank (receiver_tx_id g payment_id)) tr
          then status resp = ''completed'' \<and> success resp
          else status resp = ''error'' \<and> \<not> success resp)"
proof -
  let ?s = "sender_tx_id g payment_id" and ?r = "receiver_tx_id g payment_id"
  let ?rq = "PrepareTransactionRequest ?s sender_account ''debit'' amt
               (receiver_bank @ ''/'' @ receiver_account)"
  let ?d = "clock net w + TPC_TIMEOUT_SECONDS"
  obtain x w1 where
    call: "stub_PrepareTransaction net sender_bank ?rq (max 0 (?d - clock net w)) w = (x, w1)"
    by (cases "stub_PrepareTransaction net sender_bank ?rq (max 0 (?d - clock net w)) w")
  show ?thesis
  proof (cases "\<not> (sender_bank = receiver_bank \<and> sender_account = receiver_account)
       \<and> sender_bank \<in> set bank_stubs_keys \<and> receiver_bank \<in> set bank_stubs_keys
       \<and> (\<exists>v. x = Reply v \<and> vote v \<and> \<not> clock net w1 > ?d - 1)")
    case True
    then obtain v where x: "x = Reply v" "vote v" "\<not> clock net w1 > ?d - 1" by blast
    with True call run
    have "tpc_prepare_receiver (traced net) g sender_bank receiver_bank ?s ?r
            (PrepareTransactionRequest ?r receiver_account ''credit'' amt
               (sender_bank @ ''/'' @ sender_account)) ?d
            (w1, [PrepareCall sender_bank ?rq x]) = (resp, (w', tr))"
      by (auto simp add: process_payment_2pc_def traced_simps Let_def split: if_splits)
    from tpc_prepare_receiver_trace [OF this tx_ids_differ] acked show ?thesis by simp
  next
    case False
    with call run acked have False
      by (cases x)
         (auto simp add: process_payment_2pc_def traced_simps try_abort_traced Let_def
            split: if_splits)
    then show ?thesis ..
  qed
qed

text \<open>
  An instance: the sender's commit is acknowledged, the response to the receiver's commit
  is lost. No abort is issued and the response is \<^verbatim>\<open>error\<close>.
\<close>

theorem no_abort_after_sender_commit_witness:
  "list_ex (is_commit_ack ''Bank1'' (sender_tx_id ''g-1'' ''p-1'')) (snd (snd receiver_commit_lost))
   \<and> filter is_abort (snd (snd receiver_commit_lost)) = []
   \<and> status (fst receiver_commit_lost) = ''error''
   \<and> \<not> success (fst receiver_commit_lost)"
proof -
  let ?w = "world0\<lparr>faults := [(Deliver, 0), (Deliver, 0), (Deliver, 0), (ReplyLost ''UNAVAILABLE'', 0)]\<rparr>"
  have run: "process_payment_2pc (traced sim_net) ''g-1'' ''p-1'' ''Bank1'' ''ACC001'' ''Bank2'' ''ACC002''
               150 (?w, [])
             = (fst receiver_commit_lost, (fst (snd receiver_commit_lost), snd (snd receiver_commit_lost)))"
    by (simp add: receiver_commit_lost_def)
  have acked: "list_ex (is_commit_ack ''Bank1'' (sender_tx_id ''g-1'' ''p-1''))
                 (snd (snd receiver_commit_lost))"
    by code_simp
  have lost: "\<not> list_ex (is_commit_ack ''Bank2'' (receiver_tx_id ''g-1'' ''p-1''))
                 (snd (snd receiver_commit_lost))"
    by code_simp
  from no_abort_after_sender_commit [OF run acked] lost acked show ?thesis by simp
qed

subsection \<open>Success and status\<close>

lemma tpc_commit_consistent: "consistent (fst (tpc_commit net g sb rb s r w))"
  by (simp add: tpc_commit_def consistent_def PaymentResponse_def Let_def split: prod.split rpc.split)

lemma tpc_prepare_receiver_consistent:
  "consistent (fst (tpc_prepare_receiver net g sb rb s r rq d w))"
  by (simp add: tpc_prepare_receiver_def tpc_commit_consistent Let_def split: prod.split rpc.split)
     (simp add: consistent_def PaymentResponse_def)

lemma process_payment_2pc_consistent:
  "consistent (fst (process_payment_2pc net g pid sb sa rb ra amt w))"
  by (simp add: process_payment_2pc_def tpc_prepare_receiver_consistent Let_def
        split: prod.split rpc.split)
     (simp add: consistent_def PaymentResponse_def)

lemma process_payment_2pc_consistent_run:
  "process_payment_2pc net g pid sb sa rb ra amt w = (r, w1) \<Longrightarrow> consistent r"
  using process_payment_2pc_consistent [of net g pid sb sa rb ra amt w] by simp

lemma failed_consistent: "consistent (PaymentResponse False tid ''failed'' m)"
  by (simp add: consistent_def PaymentResponse_def)

lemma cache_response_consistent:
  "consistent r \<Longrightarrow> cache_consistent (PROCESSED_KEYS gw)
     \<Longrightarrow> cache_consistent (PROCESSED_KEYS (cache_response pid r gw))"
  by (simp add: cache_consistent_def cache_response_def)

lemma cached_result_consistent:
  "cache_consistent (PROCESSED_KEYS gw) \<Longrightarrow> cached_result gw pid = Some r \<Longrightarrow> consistent r"
  by (auto simp add: cache_consistent_def cached_result_def split: if_splits option.splits)

lemma payment_attempt_consistent:
  assumes inv: "cache_consistent (PROCESSED_KEYS gw)"
    and run: "payment_attempt net g rq sb sa gw w = (res, gw1, w1)"
  shows "result_consistent res \<and> cache_consistent (PROCESSED_KEYS gw1)"
  using run inv
  by (auto simp add: payment_attempt_def Let_def failed_consistent
        cache_response_consistent [OF _ inv]
      dest: process_payment_2pc_consistent_run
      split: if_splits prod.splits rpc.splits)

lemma ProcessPayment_consistent:
  assumes inv: "cache_consistent (PROCESSED_KEYS gw)"
    and run: "ProcessPayment net g rq gw w = (res, gw1, w1)"
  shows "result_consistent res \<and> cache_consistent (PROCESSED_KEYS gw1)"
proof (cases "active_tokens gw (req_token rq)")
  case None
  with run inv show ?thesis
    by (auto simp add: ProcessPayment_def failed_consistent)
next
  case tok: (Some sender_info)
  show ?thesis
  proof (cases "req_sender_account rq \<noteq> ''self'' \<and> req_sender_account rq \<noteq> tok_account sender_info")
    case True
    with tok run inv show ?thesis
      by (auto simp add: ProcessPayment_def failed_consistent)
  next
    case authorised: False
    show ?thesis
    proof (cases "cached_result gw (req_payment_id rq)")
      case (Some cached)
      from cached_result_consistent [OF inv Some] have "consistent cached" .
      with Some authorised tok run inv show ?thesis
        by (auto simp add: ProcessPayment_def)
    next
      case None
      with authorised tok run
      have "payment_attempt net g rq (tok_bank sender_info) (tok_account sender_info) gw w
              = (res, gw1, w1)"
        by (auto simp add: ProcessPayment_def)
      from payment_attempt_consistent [OF inv this] show ?thesis .
    qed
  qed
qed

lemma gateway_run_consistent:
  "cache_consistent cache \<Longrightarrow> \<forall>res \<in> set (gateway_run net calls cache). result_consistent res"
proof (induction calls arbitrary: cache)
  case Nil
  then show ?case by simp
next
  case (Cons call calls)
  obtain g tokens rq w where call: "call = (g, tokens, rq, w)" by (cases call)
  obtain res gw1 w1 where
    run: "ProcessPayment net g rq \<lparr>active_tokens = tokens, PROCESSED_KEYS = cache\<rparr> w = (res, gw1, w1)"
    by (cases "ProcessPayment net g rq \<lparr>active_tokens = tokens, PROCESSED_KEYS = cache\<rparr> w")
  from Cons.prems
  have "cache_consistent (PROCESSED_KEYS \<lparr>active_tokens = tokens, PROCESSED_KEYS = cache\<rparr>)"
    by simp
  from ProcessPayment_consistent [OF this run]
  have "result_consistent res" "cache_consistent (PROCESSED_KEYS gw1)" by simp_all
  with Cons.IH [of "PROCESSED_KEYS gw1"] call run show ?case by simp
qed

text \<open>
  C10. In every run of the gateway that starts with the empty idempotency cache, every
  response \<^verbatim>\<open>ProcessPayment\<close> returns (built on the spot, returned by the two-phase
  commit, or taken from the cache) has \<^verbatim>\<open>success = True\<close> exactly when its status is
  \<^verbatim>\<open>completed\<close>; so a response with status \<^verbatim>\<open>failed\<close> or \<^verbatim>\<open>error\<close> has
  \<^verbatim>\<open>success = False\<close>.
\<close>

theorem responses_consistent:
  assumes "Response r c \<in> set (gateway_run net calls Map.empty)"
  shows "success r = (status r = ''completed'')
       \<and> (status r = ''failed'' \<or> status r = ''error'' \<longrightarrow> \<not> success r)"
proof -
  have "cache_consistent Map.empty" by (simp add: cache_consistent_def)
  from gateway_run_consistent [OF this] assms have "result_consistent (Response r c)" by blast
  then show ?thesis by (auto simp add: consistent_def)
qed

text \<open>
  An instance: \<^verbatim>\<open>user1\<close> pays 150 to \<^verbatim>\<open>ACC002\<close> at Bank2, and sends the same request
  again; both answers are the completed payment.
\<close>

theorem responses_consistent_witness:
  "gateway_run sim_net
     [(''g-1'', active_tokens gateway0, happy_request, world0),
      (''g-2'', active_tokens gateway0, happy_request, world0)] Map.empty
   = [Response (PaymentResponse True ''g-1'' ''completed'' [S ''Payment processed successfully'']) None,
      Response (PaymentResponse True ''g-1'' ''completed'' [S ''Payment processed successfully'']) None]
   \<and> success (PaymentResponse True ''g-1'' ''completed'' [S ''Payment processed successfully''])
   \<and> status (PaymentResponse True ''g-1'' ''completed'' [S ''Payment processed successfully''])
       = ''completed''"
proof -
  let ?r = "PaymentResponse True ''g-1'' ''completed'' [S ''Payment processed successfully'']"
  let ?calls = "[(''g-1'', active_tokens gateway0, happy_request, world0),
                 (''g-2'', active_tokens gateway0, happy_request, world0)]"
  have run: "gateway_run sim_net ?calls Map.empty = [Response ?r None, Response ?r None]"
    by code_simp
  then have "Response ?r None \<in> set (gateway_run sim_net ?calls Map.empty)"
    by simp
  from responses_consistent [OF this] have "success ?r = (status ?r = ''completed'')"
    by simp
  moreover have "status ?r = ''completed''"
    by (simp add: PaymentResponse_def)
  ultimately show ?thesis using run by simp
qed

subsection \<open>The idempotency cache\<close>

text \<open>
  C1 fails on the code. \<^verbatim>\<open>_is_retriable_error\<close> returns nothing, so the test
  \<^verbatim>\<open>success or not self._is_retriable_error(response)\<close> holds for every response and
  every outcome of the two-phase commit is cached. Here the sender's prepare runs into its
  deadline (a transient outcome, before any commit): the failure is stored under
  \<^verbatim>\<open>p-4\<close>, and the retry is answered from the cache without a single call to a bank.
\<close>

theorem transient_outcome_is_cached:
  "fst timed_out_first =
     Response (PaymentResponse False ''g-1'' ''failed''
                 [S ''Transaction timed out during preparation (sender)'']) None
   \<and> PROCESSED_KEYS (fst (snd timed_out_first)) ''p-4'' =
     Some (PaymentResponse False ''g-1'' ''failed''
             [S ''Transaction timed out during preparation (sender)''])
   \<and> fst timed_out_retry = fst timed_out_first
   \<and> snd (snd (snd timed_out_retry)) = []"
  by code_simp

subsection \<open>Tokens\<close>

text \<open>
  The interceptor rejects a call to a method that requires authentication when the token
  in its metadata is in the table and has expired.
\<close>

lemma intercept_expired:
  assumes "method \<in> set auth_required_methods"
    and "map_of (rev md) ''token'' = Some tk"
    and "tokens tk = Some info" and "expires info < time_now"
  shows "intercept_service time_now tokens method md = Unauthenticated"
  using assms by (auto simp add: intercept_service_def auth_required_methods_def)

text \<open>
  C6 fails on the code for the token that \<^verbatim>\<open>ProcessPayment\<close> reads from the request
  body: the method tests only that the token is in \<^verbatim>\<open>active_tokens\<close>. A call whose
  metadata carry a valid token passes the interceptor, and the payment is then made on
  the authority of the body's token, which expired at 500, at time 1000. The same request
  with the expired token in the metadata is rejected.
\<close>

theorem expired_body_token_accepted:
  "map_option expires (active_tokens gateway0 ''user1-old-token'') = Some 500
   \<and> clock sim_net world0 = 1000
   \<and> fst expired_token_call =
       Handled (Response (PaymentResponse True ''g-1'' ''completed''
                            [S ''Payment processed successfully'']) None)
   \<and> balance_at (fst (snd (snd expired_token_call))) ''Bank1'' ''ACC001'' = Some 850
   \<and> balance_at (fst (snd (snd expired_token_call))) ''Bank2'' ''ACC002'' = Some 2150
   \<and> fst (serve_ProcessPayment (traced sim_net) ''g-1'' [(''token'', ''user1-old-token'')]
            expired_token_request gateway0 (world0, [])) = Rejected"
  by code_simp

subsection \<open>Transaction ids\<close>

lemma tpc_commit_ids:
  assumes "tpc_commit (traced net) g sb rb s r (w, tr0) = (resp, (w', tr))"
    and "list_all (\<lambda>ev. event_tx_id ev = Some s \<or> event_tx_id ev = Some r) tr0"
  shows "list_all (\<lambda>ev. event_tx_id ev = Some s \<or> event_tx_id ev = Some r) tr"
  using assms
  by (auto simp add: tpc_commit_def traced_simps try_abort_traced Let_def
      split: prod.splits rpc.splits if_splits)

lemma tpc_prepare_receiver_ids:
  assumes "tpc_prepare_receiver (traced net) g sb rb s r (PrepareTransactionRequest r ra ty amt cp) d (w, tr0)
             = (resp, (w', tr))"
    and "list_all (\<lambda>ev. event_tx_id ev = Some s \<or> event_tx_id ev = Some r) tr0"
  shows "list_all (\<lambda>ev. event_tx_id ev = Some s \<or> event_tx_id ev = Some r) tr"
proof (cases "stub_PrepareTransaction net rb (PrepareTransactionRequest r ra ty amt cp) (max 0 (d - clock net w)) w")
  case (Pair x w1)
  show ?thesis
  proof (cases "\<exists>v. x = Reply v \<and> vote v \<and> \<not> clock net w1 > d - 1")
    case True
    then obtain v where x: "x = Reply v" "vote v" "\<not> clock net w1 > d - 1" by blast
    with Pair assms(1)
    have "tpc_commit (traced net) g sb rb s r
            (w1, tr0 @ [PrepareCall rb (PrepareTransactionRequest r ra ty amt cp) x]) = (resp, (w', tr))"
      by (simp add: tpc_prepare_receiver_def traced_simps)
    from tpc_commit_ids [OF this] assms(2) show ?thesis by simp
  next
    case False
    with Pair assms show ?thesis
      by (cases x)
         (auto simp add: tpc_prepare_receiver_def traced_simps try_abort_traced Let_def
            split: if_splits)
  qed
qed

text \<open>
  C4, as the claim states it, fails: the global id is drawn anew by every call of
  \<^verbatim>\<open>_process_payment_2pc\<close>, so two attempts of the payment \<^verbatim>\<open>p-1\<close> use different
  transaction ids. The first attempt leaves the entry \<^verbatim>\<open>g-1-sender-p-1\<close> prepared at
  Bank1; the second prepares and commits \<^verbatim>\<open>g-2-sender-p-1\<close>, and the first entry is
  still there afterwards.
\<close>

theorem retry_uses_new_ids:
  "map event_tx_id (snd (snd first_attempt))
     = [Some ''g-1-sender-p-1'', Some ''g-1-receiver-p-1'', Some ''g-1-sender-p-1'']
   \<and> map event_tx_id (snd (snd second_attempt))
     = [Some ''g-2-sender-p-1'', Some ''g-2-receiver-p-1'', Some ''g-2-sender-p-1'', Some ''g-2-receiver-p-1'']
   \<and> prepared_at (fst (snd first_attempt)) ''Bank1'' ''g-1-sender-p-1''
   \<and> prepared_at (fst (snd second_attempt)) ''Bank1'' ''g-1-sender-p-1''
   \<and> status (fst second_attempt) = ''completed''"
  by code_simp

text \<open>
  C4, amended. Within one attempt, every \<^verbatim>\<open>PrepareTransaction\<close>,
  \<^verbatim>\<open>CommitTransaction\<close> and \<^verbatim>\<open>AbortTransaction\<close> the coordinator issues carries the
  id \<^verbatim>\<open>{global}-sender-{payment-id}\<close> or \<^verbatim>\<open>{global}-receiver-{payment-id}\<close>, where
  \<^verbatim>\<open>global\<close> is the id this attempt has drawn. Two attempts of the same payment id
  derive the same sender id (and the same receiver id) exactly when they have drawn the
  same global id.
\<close>

theorem participant_ids_follow_global_id:
  assumes run: "process_payment_2pc (traced net) g payment_id sender_bank sender_account
                  receiver_bank receiver_account amt (w, []) = (resp, (w', tr))"
  shows "(\<forall>ev \<in> set tr. event_tx_id ev = Some (g @ ''-sender-'' @ payment_id)
                       \<or> event_tx_id ev = Some (g @ ''-receiver-'' @ payment_id))
       \<and> ((g @ ''-sender-'' @ payment_id = g' @ ''-sender-'' @ payment_id) = (g = g'))
       \<and> ((g @ ''-receiver-'' @ payment_id = g' @ ''-receiver-'' @ payment_id) = (g = g'))"
proof -
  let ?s = "sender_tx_id g payment_id" and ?r = "receiver_tx_id g payment_id"
  let ?rq = "PrepareTransactionRequest ?s sender_account ''debit'' amt
               (receiver_bank @ ''/'' @ receiver_account)"
  let ?d = "clock net w + TPC_TIMEOUT_SECONDS"
  obtain x w1 where
    call: "stub_PrepareTransaction net sender_bank ?rq (max 0 (?d - clock net w)) w = (x, w1)"
    by (cases "stub_PrepareTransaction net sender_bank ?rq (max 0 (?d - clock net w)) w")
  have "list_all (\<lambda>ev. event_tx_id ev = Some ?s \<or> event_tx_id ev = Some ?r) tr"
  proof (cases "\<not> (sender_bank = receiver_bank \<and> sender_account = receiver_account)
       \<and> sender_bank \<in> set bank_stubs_keys \<and> receiver_bank \<in> set bank_stubs_keys
       \<and> (\<exists>v. x = Reply v \<and> vote v \<and> \<not> clock net w1 > ?d - 1)")
    case True
    then obtain v where x: "x = Reply v" "vote v" "\<not> clock net w1 > ?d - 1" by blast
    with True call run
    have "tpc_prepare_receiver (traced net) g sender_bank receiver_bank ?s ?r
            (PrepareTransactionRequest ?r receiver_account ''credit'' amt
               (sender_bank @ ''/'' @ sender_account)) ?d
            (w1, [PrepareCall sender_bank ?rq x]) = (resp, (w', tr))"
      by (auto simp add: process_payment_2pc_def traced_simps Let_def split: if_splits)
    from tpc_prepare_receiver_ids [OF this] show ?thesis by simp
  next
    case False
    with call run show ?thesis
      by (cases x)
         (auto simp add: process_payment_2pc_def traced_simps try_abort_traced Let_def
            split: if_splits)
  qed
  then show ?thesis by (simp add: sender_tx_id_def receiver_tx_id_def list_all_iff)
qed

text \<open>An instance: the three calls of the first attempt above.\<close>

theorem participant_ids_follow_global_id_witness:
  "list_all (\<lambda>ev. event_tx_id ev = Some ''g-1-sender-p-1'' \<or> event_tx_id ev = Some ''g-1-receiver-p-1'')
     (snd (snd first_attempt))
   \<and> snd (snd first_attempt) \<noteq> []"
proof -
  let ?w = "world0\<lparr>faults := [(Deliver, 0), (Unreachable ''UNAVAILABLE'', 0), (Unreachable ''UNAVAILABLE'', 0)]\<rparr>"
  have run: "process_payment_2pc (traced sim_net) ''g-1'' ''p-1'' ''Bank1'' ''ACC001'' ''Bank2'' ''ACC002''
               150 (?w, [])
             = (fst first_attempt, (fst (snd first_attempt), snd (snd first_attempt)))"
    by (simp add: first_attempt_def)
  have ne: "snd (snd first_attempt) \<noteq> []" by code_simp
  from participant_ids_follow_global_id [OF run, of "''g-1''"] ne
  show ?thesis by (simp add: list_all_iff)
qed

subsection \<open>Self-transfer\<close>

text \<open>
  C7, as the claim states it, fails: \<^verbatim>\<open>ProcessPayment\<close> asks the sender's bank for the
  balance before it reaches the short-circuit of \<^verbatim>\<open>_process_payment_2pc\<close>. The
  self-transfer of 50 issues one \<^verbatim>\<open>GetBalance\<close> call, and the self-transfer of 5000 is
  refused for insufficient funds.
\<close>

theorem self_transfer_asks_the_bank:
  "snd (snd (snd self_transfer)) =
     [GetBalanceCall ''Bank1'' ''ACC001''
        (Reply (BankBalanceResponse True 1000 [S ''Balance retrieved successfully'']))]
   \<and> fst self_overdrawn =
     Response (PaymentResponse False [] ''failed''
                 [S ''Authorization failed: Insufficient funds. Available: '', F 1000,
                  S '', Required: '', F 5000])
       (Some (''PERMISSION_DENIED'', ''Insufficient funds''))"
  by code_simp

text \<open>In the network of banks, a \<^verbatim>\<open>GetBalance\<close> call changes no bank.\<close>

lemma sim_GetBalance_reads_only:
  "banks (snd (stub_GetBalance sim_net bank aid w)) = banks w"
  by (auto simp add: sim_net_def sim_call_def Let_def
      split: list.split prod.split fault.split option.split)

text \<open>
  C7, amended. For a payment whose receiver is the sender's own account at the sender's own
  bank: \<^verbatim>\<open>_process_payment_2pc\<close> returns \<^verbatim>\<open>success = True\<close> with status
  \<^verbatim>\<open>completed\<close> without a single call to a bank. \<^verbatim>\<open>ProcessPayment\<close> issues either
  no call at all, or exactly one, the read-only \<^verbatim>\<open>GetBalance\<close> for the sender's
  account, and leaves the world as that call leaves it: no prepare, commit or abort, hence
  no balance change and no ledger entry. It returns the completed response when the sender
  is authorised, nothing is cached for the payment id, the sender's bank is known and
  \<^verbatim>\<open>GetBalance\<close> reports a balance that covers the amount.
\<close>

theorem self_transfer_short_circuit:
  assumes tok: "active_tokens gw (req_token rq) = Some info"
    and self: "req_receiver_bank rq = tok_bank info \<and> req_receiver_account rq = tok_account info"
    and run: "ProcessPayment (traced net) g rq gw (w, []) = (res, gw1, (w1, tr))"
  shows "process_payment_2pc (traced net) g (req_payment_id rq) (tok_bank info) (tok_account info)
           (tok_bank info) (tok_account info) (req_amount rq) (w, [])
         = (PaymentResponse True g ''completed''
              [S ''Self-transfer processed successfully (no balance change)''], (w, []))
       \<and> ((tr = [] \<and> w1 = w)
          \<or> (tr = [GetBalanceCall (tok_bank info) (tok_account info)
                     (fst (stub_GetBalance net (tok_bank info) (tok_account info) w))]
             \<and> w1 = snd (stub_GetBalance net (tok_bank info) (tok_account info) w)))
       \<and> ((req_sender_account rq = ''self'' \<or> req_sender_account rq = tok_account info)
            \<and> cached_result gw (req_payment_id rq) = None
            \<and> tok_bank info \<in> set bank_stubs_keys
            \<and> (\<exists>bal m. fst (stub_GetBalance net (tok_bank info) (tok_account info) w)
                          = Reply (BankBalanceResponse True bal m) \<and> req_amount rq \<le> bal)
          \<longrightarrow> res = Response (PaymentResponse True g ''completed''
                               [S ''Self-transfer processed successfully (no balance change)'']) None)"
proof -
  let ?b = "tok_bank info" and ?a = "tok_account info"
  have short: "process_payment_2pc (traced net) g (req_payment_id rq) ?b ?a ?b ?a (req_amount rq) ww
         = (PaymentResponse True g ''completed''
              [S ''Self-transfer processed successfully (no balance change)''], ww)" for ww
    by (simp add: process_payment_2pc_def)
  obtain x wx where gb: "stub_GetBalance net ?b ?a w = (x, wx)"
    by (cases "stub_GetBalance net ?b ?a w")
  have calls: "(tr = [] \<and> w1 = w) \<or> (tr = [GetBalanceCall ?b ?a x] \<and> w1 = wx)"
    using run tok self gb short
    by (auto simp add: ProcessPayment_def payment_attempt_def traced_simps Let_def
        split: option.splits if_splits rpc.splits)
  have resp: "res = Response (PaymentResponse True g ''completed''
                               [S ''Self-transfer processed successfully (no balance change)'']) None"
    if "req_sender_account rq = ''self'' \<or> req_sender_account rq = tok_account info"
      and "cached_result gw (req_payment_id rq) = None"
      and "tok_bank info \<in> set bank_stubs_keys"
      and "x = Reply (BankBalanceResponse True bal m)" and "req_amount rq \<le> bal" for bal m
    using run tok self gb short that
    by (auto simp add: ProcessPayment_def payment_attempt_def traced_simps Let_def)
  from short [of "(w, [])"] calls resp gb show ?thesis by auto
qed

text \<open>
  An instance: the self-transfer of 50; the balance is 1000 and the ledger is empty
  afterwards, as before.
\<close>

theorem self_transfer_short_circuit_witness:
  "fst self_transfer =
     Response (PaymentResponse True ''g-1'' ''completed''
                 [S ''Self-transfer processed successfully (no balance change)'']) None
   \<and> length (snd (snd (snd self_transfer))) = 1
   \<and> balance_at (fst (snd (snd self_transfer))) ''Bank1'' ''ACC001'' = Some 1000
   \<and> ledger_at (fst (snd (snd self_transfer))) ''Bank1'' ''ACC001'' = []"
proof -
  let ?info = "\<lparr>tok_username = ''user1'', tok_bank = ''Bank1'', tok_account = ''ACC001'', expires = 4000\<rparr>"
  have tok: "active_tokens gateway0 (req_token self_request) = Some ?info"
    by (simp add: gateway0_def self_request_def)
  have self: "req_receiver_bank self_request = tok_bank ?info
              \<and> req_receiver_account self_request = tok_account ?info"
    by (simp add: self_request_def)
  have run: "ProcessPayment (traced sim_net) ''g-1'' self_request gateway0 (world0, [])
             = (fst self_transfer, fst (snd self_transfer),
                (fst (snd (snd self_transfer)), snd (snd (snd self_transfer))))"
    by (simp add: self_transfer_def)
  have gb: "fst (stub_GetBalance sim_net ''Bank1'' ''ACC001'' world0)
            = Reply (BankBalanceResponse True 1000 [S ''Balance retrieved successfully''])"
    by code_simp
  have pre: "(req_sender_account self_request = ''self''
               \<or> req_sender_account self_request = tok_account ?info)
             \<and> cached_result gateway0 (req_payment_id self_request) = None
             \<and> tok_bank ?info \<in> set bank_stubs_keys
             \<and> (\<exists>bal m. fst (stub_GetBalance sim_net (tok_bank ?info) (tok_account ?info) world0)
                           = Reply (BankBalanceResponse True bal m)
                         \<and> req_amount self_request \<le> bal)"
    using gb
    by (simp add: self_request_def gateway0_def cached_result_def bank_stubs_keys_def
          BANK_SERVERS_def)
  have rest: "length (snd (snd (snd self_transfer))) = 1
              \<and> balance_at (fst (snd (snd self_transfer))) ''Bank1'' ''ACC001'' = Some 1000
              \<and> ledger_at (fst (snd (snd self_transfer))) ''Bank1'' ''ACC001'' = []"
    by code_simp
  from self_transfer_short_circuit [OF tok self run] pre rest show ?thesis
    by (simp add: self_request_def)
qed

section \<open>Properties of the client\<close>









end
